theory Spec2Isabelle
  imports Main
begin

section \<open>Simulation core: the pipe grid\<close>

text \<open>
  The types of \<^verbatim>\<open>core/types.ts\<close>: the nine piece tokens, a cell with its position,
  piece type, rotation and water flag, and a grid as rows of cells. A rotation is one of
  0, 1, 2, 3; it is read modulo 4 wherever it is used. Positions are pairs of JavaScript
  numbers, here integers, so that a neighbour above row 0 or left of column 0 is a
  position outside the grid and not a clamped one.
\<close>

datatype PipeType = S | L | T | X | K1 | K2 | K3 | K4 | P

type_synonym Rotation = nat

record PipeCell =
  row :: int
  col :: int
  type :: PipeType
  currentRotation :: Rotation
  isWatered :: bool

type_synonym PipeGrid = "PipeCell list list"

type_synonym Pos = "int \<times> int"

datatype Side = North | East | South | West

text \<open>
  \<^verbatim>\<open>PIECE_DEFINITIONS\<close> (\<^verbatim>\<open>core/definitions.ts\<close>) is announced by the plan and is not
  part of the sources. It is a parameter of everything below: a table that gives, for a
  piece type and a rotation in 0..3, the sides on which the piece is open.
\<close>

type_synonym PieceDefinitions = "PipeType \<Rightarrow> Rotation \<Rightarrow> Side list"

definition cellAt :: "PipeGrid \<Rightarrow> Pos \<Rightarrow> PipeCell option" where
  "cellAt grid p =
     (case p of (r, c) \<Rightarrow>
        if 0 \<le> r \<and> r < int (length grid)
        then (let cells = grid ! nat r
              in if 0 \<le> c \<and> c < int (length cells) then Some (cells ! nat c) else None)
        else None)"

fun neighbour :: "Side \<Rightarrow> Pos \<Rightarrow> Pos" where
  "neighbour North (r, c) = (r - 1, c)"
| "neighbour East (r, c) = (r, c + 1)"
| "neighbour South (r, c) = (r + 1, c)"
| "neighbour West (r, c) = (r, c - 1)"

fun opposite :: "Side \<Rightarrow> Side" where
  "opposite North = South"
| "opposite East = West"
| "opposite South = North"
| "opposite West = East"

definition openings :: "PieceDefinitions \<Rightarrow> PipeCell \<Rightarrow> Side list" where
  "openings D cell = D (type cell) (currentRotation cell mod 4)"

text \<open>
  Modelled from the spec: the alignment test of the missing \<^verbatim>\<open>calculateFlow\<close>. Water
  passes from the cell at \<open>p\<close> through its side \<open>s\<close> when both cells exist, the cell at
  \<open>p\<close> is open on \<open>s\<close> and the cell next to it is open on the opposite side: the two
  openings are aligned.
\<close>

definition flowsThrough :: "PieceDefinitions \<Rightarrow> PipeGrid \<Rightarrow> Pos \<Rightarrow> Side \<Rightarrow> bool" where
  "flowsThrough D grid p s =
     (case cellAt grid p of
        None \<Rightarrow> False
      | Some a \<Rightarrow>
          (case cellAt grid (neighbour s p) of
             None \<Rightarrow> False
           | Some b \<Rightarrow> s \<in> set (openings D a) \<and> opposite s \<in> set (openings D b)))"

definition flowNeighbours :: "PieceDefinitions \<Rightarrow> PipeGrid \<Rightarrow> Pos \<Rightarrow> Pos list" where
  "flowNeighbours D grid p =
     map (\<lambda>s. neighbour s p) (filter (flowsThrough D grid p) [North, East, South, West])"

definition gridCells :: "PipeGrid \<Rightarrow> Pos set" where
  "gridCells grid = {p. cellAt grid p \<noteq> None}"

lemma gridCells_subset:
  "gridCells grid \<subseteq>
     (\<lambda>(r, c). (int r, int c)) ` (SIGMA r : {..<length grid}. {..<length (grid ! r)})"
proof
  fix p assume "p \<in> gridCells grid"
  then obtain r c where p: "p = (r, c)" and r: "0 \<le> r" "r < int (length grid)"
    and c: "0 \<le> c" "c < int (length (grid ! nat r))"
    by (cases p) (auto simp: gridCells_def cellAt_def Let_def split: if_splits)
  have "(nat r, nat c) \<in> (SIGMA r : {..<length grid}. {..<length (grid ! r)})"
    using r c by auto
  moreover have "p = (\<lambda>(r, c). (int r, int c)) (nat r, nat c)"
    using p r c by simp
  ultimately show "p \<in> (\<lambda>(r, c). (int r, int c)) ` (SIGMA r : {..<length grid}. {..<length (grid ! r)})"
    by (rule image_eqI[rotated])
qed

lemma finite_gridCells: "finite (gridCells grid)"
  by (rule finite_subset[OF gridCells_subset]) (intro finite_imageI finite_SigmaI, simp_all)

text \<open>
  Modelled from the spec: the traversal inside \<^verbatim>\<open>calculateFlow\<close> (\<^verbatim>\<open>core/flow.ts\<close>),
  which the plan announces and the sources do not contain. The spec describes it as a
  connectivity traversal from the source outward that follows only the openings given
  by each cell's piece type and current rotation. It is written here as a worklist
  loop: take the next position; skip it when it was visited or lies outside the grid;
  otherwise record it and queue the neighbours it flows to.
\<close>

function traverse :: "PieceDefinitions \<Rightarrow> PipeGrid \<Rightarrow> Pos list \<Rightarrow> Pos list \<Rightarrow> Pos list" where
  "traverse D grid visited [] = visited"
| "traverse D grid visited (p # queue) =
     (if p \<in> set visited \<or> cellAt grid p = None
      then traverse D grid visited queue
      else traverse D grid (visited @ [p]) (queue @ flowNeighbours D grid p))"
  by pat_completeness auto
termination
proof (relation "measures [\<lambda>(D, grid, visited, queue). card (gridCells grid - set visited),
                            \<lambda>(D, grid, visited, queue). length queue]", goal_cases)
  case 1
  show ?case by simp
next
  case (2 D grid visited p queue)
  show ?case by simp
next
  case (3 D grid visited p queue)
  then have "p \<in> gridCells grid - set visited"
    by (simp add: gridCells_def)
  moreover have "gridCells grid - set (visited @ [p]) = (gridCells grid - set visited) - {p}"
    by auto
  moreover have "finite (gridCells grid - set visited)"
    by (simp add: finite_gridCells)
  ultimately have "card (gridCells grid - set (visited @ [p])) < card (gridCells grid - set visited)"
    by (simp only: card_Diff1_less)
  then show ?case by simp
qed

definition markWatered :: "Pos list \<Rightarrow> PipeGrid \<Rightarrow> PipeGrid" where
  "markWatered watered grid =
     map (\<lambda>(r, cells).
            map (\<lambda>(c, cell). cell\<lparr>isWatered := (int r, int c) \<in> set watered\<rparr>)
                (enumerate 0 cells))
         (enumerate 0 grid)"

record FlowResult =
  newGrid :: PipeGrid
  poolsFilled :: int
  isGameWon :: bool

definition wateredPools :: "PipeGrid \<Rightarrow> PipeCell list" where
  "wateredPools grid = filter (\<lambda>cell. type cell = P \<and> isWatered cell) (concat grid)"

text \<open>
  Modelled from the spec: \<^verbatim>\<open>calculateFlow(grid, source, poolCount)\<close> is missing from the
  sources. Following the spec, the water flags are recomputed from nothing by one
  traversal from the source, \<open>poolsFilled\<close> counts the watered pool cells of the new grid
  and the game is won when that count equals \<open>poolCount\<close>. The two animation tables the
  plan also lists in the result (\<^verbatim>\<open>connectionLevels\<close>, \<^verbatim>\<open>cellLevels\<close>) are left out.
\<close>

definition calculateFlow :: "PieceDefinitions \<Rightarrow> PipeGrid \<Rightarrow> Pos \<Rightarrow> int \<Rightarrow> FlowResult" where
  "calculateFlow D grid source poolCount =
     (let watered = traverse D grid [] [source];
          grid' = markWatered watered grid;
          filled = int (length (wateredPools grid'))
      in \<lparr>newGrid = grid', poolsFilled = filled, isGameWon = (filled = poolCount)\<rparr>)"

text \<open>
  The spec's notion of a watered cell, stated on its own: the source cell of the grid is
  reachable, and a cell is reachable when water passes to it through aligned openings
  from a reachable cell.
\<close>

inductive reachable :: "PieceDefinitions \<Rightarrow> PipeGrid \<Rightarrow> Pos \<Rightarrow> Pos \<Rightarrow> bool"
  for D :: PieceDefinitions and grid :: PipeGrid and source :: Pos where
  reachable_source: "cellAt grid source \<noteq> None \<Longrightarrow> reachable D grid source source"
| reachable_step:
    "reachable D grid source p \<Longrightarrow> flowsThrough D grid p s \<Longrightarrow>
     reachable D grid source (neighbour s p)"

text \<open>
  Modelled from the spec: the rotation handler lives in the missing \<^verbatim>\<open>Logic.tsx\<close>. The spec
  gives the move: one cell has its rotation replaced by \<open>(current + 1) mod 4\<close>; a
  position outside the grid changes nothing.
\<close>

definition rotateCell :: "PipeGrid \<Rightarrow> Pos \<Rightarrow> PipeGrid" where
  "rotateCell grid p =
     (case cellAt grid p of
        None \<Rightarrow> grid
      | Some cell \<Rightarrow>
          grid[nat (fst p) :=
                 (grid ! nat (fst p))[nat (snd p) :=
                    cell\<lparr>currentRotation := (currentRotation cell + 1) mod 4\<rparr>]])"

subsection \<open>Data for the worked examples\<close>


text \<open>
  The grid of the layout \<^verbatim>\<open>"S\nP"\<close>: a straight piece at rotation \<open>r\<close> above a pool at
  rotation \<open>rp\<close>, nothing watered yet.
\<close>

definition straightAbovePool :: "Rotation \<Rightarrow> Rotation \<Rightarrow> PipeGrid" where
  "straightAbovePool r rp =
     [[\<lparr>row = 0, col = 0, type = S, currentRotation = r, isWatered = False\<rparr>],
      [\<lparr>row = 1, col = 0, type = P, currentRotation = rp, isWatered = False\<rparr>]]"

section \<open>Properties of the flow engine\<close>


lemma flowsThrough_target: "flowsThrough D grid p s \<Longrightarrow> cellAt grid (neighbour s p) \<noteq> None"
  by (auto simp: flowsThrough_def split: option.splits)

lemma reachable_in_grid: "reachable D grid source p \<Longrightarrow> cellAt grid p \<noteq> None"
  by (induction rule: reachable.induct) (auto dest: flowsThrough_target)

lemma traverse_skip:
  "p \<in> set visited \<or> cellAt grid p = None \<Longrightarrow>
   traverse D grid visited (p # queue) = traverse D grid visited queue"
  by simp






















section \<open>The black-box contract: results, levels and the first render\<close>

text \<open>
  The result that \<^verbatim>\<open>onGameEnd\<close> carries: the union type
  \<^verbatim>\<open>'win' | 'loss' | 'draw'\<close> of \<^verbatim>\<open>BaseGameProps\<close>, with the string literal of each
  value.
\<close>

datatype GameResult = Win | Loss | Draw

fun resultLiteral :: "GameResult \<Rightarrow> string" where
  "resultLiteral Win = ''win''"
| "resultLiteral Loss = ''loss''"
| "resultLiteral Draw = ''draw''"

text \<open>
  Modelled from the spec: the declaration of \<^verbatim>\<open>Difficulty\<close>, which the plan imports and
  the sources declare nowhere. The spec gives the enumeration easy, medium, hard,
  extreme, and the level folders of the plan carry the same four names, which are the
  strings a template literal prints.
\<close>

datatype Difficulty = Easy | Medium | Hard | Extreme

fun difficultyToken :: "Difficulty \<Rightarrow> string" where
  "difficultyToken Easy = ''easy''"
| "difficultyToken Medium = ''medium''"
| "difficultyToken Hard = ''hard''"
| "difficultyToken Extreme = ''extreme''"

text \<open>
  The text a template literal gives for an integer level number: decimal digits, with a
  minus sign below zero. Level numbers are whole numbers far below the size at which
  JavaScript switches to exponent notation.
\<close>

function natDigits :: "nat \<Rightarrow> string" where
  "natDigits n =
     (if n < 10 then [''0123456789'' ! n]
      else natDigits (n div 10) @ [''0123456789'' ! (n mod 10)])"
  by pat_completeness auto
termination
  by (relation "measure (\<lambda>n. n)") auto

definition numberToString :: "int \<Rightarrow> string" where
  "numberToString i = (if i < 0 then CHR ''-'' # natDigits (nat (- i)) else natDigits (nat i))"

text \<open>
  The payload of a level: the level file's JSON object has a \<^verbatim>\<open>layout\<close> string and
  possibly more fields; the loader returns an object with the layout alone.
\<close>

record LevelData =
  layout :: string

definition levelKey :: "Difficulty \<Rightarrow> int \<Rightarrow> string" where
  "levelKey difficulty levelNumber =
     difficultyToken difficulty @ ''-'' @ numberToString levelNumber"

text \<open>
  \<^verbatim>\<open>getPipesLevel\<close> of \<^verbatim>\<open>levels/index.ts\<close>. The table \<^verbatim>\<open>LEVEL_MAP\<close> is filled from
  level files that the sources do not contain, so it is a parameter: a finite map from
  keys to level objects. A key that is not mapped reads as \<^verbatim>\<open>undefined\<close>, which is
  falsy, and the function returns \<^verbatim>\<open>null\<close>: here \<open>None\<close>. A mapped level is an object,
  which is truthy.
\<close>

definition getPipesLevel ::
  "(string \<rightharpoonup> 'a LevelData_scheme) \<Rightarrow> Difficulty \<Rightarrow> int \<Rightarrow> LevelData option" where
  "getPipesLevel LEVEL_MAP difficulty levelNumber =
     (let key = levelKey difficulty levelNumber;
          level = LEVEL_MAP key
      in case level of
           Some l \<Rightarrow> Some \<lparr>layout = layout l\<rparr>
         | None \<Rightarrow> None)"

text \<open>
  The props of a mounted game (\<^verbatim>\<open>PipesGameProps\<close>). An optional prop is an option; a
  callback prop is recorded by whether the host supplied it. The type of the game data
  is a parameter.
\<close>

datatype FeedGameStatus = StatusPlaying | StatusCompleted

record CompletionData =
  completionTime :: int
  result :: GameResult

record 'gd PipesGameProps =
  interactive :: "bool option"
  onInteraction :: bool
  onGameEnd :: bool
  onStateChange :: bool
  gameId :: "string option"
  initialStatus :: "FeedGameStatus option"
  initialGameData :: "'gd option"
  initialCompletionData :: "CompletionData option"
  levelData :: "LevelData option"
  difficulty :: "Difficulty option"
  levelNumber :: "int option"
  pendingInteraction :: "int option"

text \<open>
  The initializer of the \<^verbatim>\<open>gameData\<close> state in \<^verbatim>\<open>Logic.tsx\<close> (section 6.3 of the
  plan). \<^verbatim>\<open>parsePipesGrid\<close> and \<^verbatim>\<open>emptyState\<close> are not in the sources and are
  parameters; the parser may reject the layout, and then the initializer fails with the
  parser's error.
\<close>

definition gameDataInitializer ::
  "(string \<Rightarrow> string option \<Rightarrow> 'e + 'gd) \<Rightarrow> 'gd \<Rightarrow> 'gd PipesGameProps \<Rightarrow> 'e + 'gd" where
  "gameDataInitializer parsePipesGrid emptyState props =
     (case initialGameData props of
        Some restored \<Rightarrow> Inr restored
      | None \<Rightarrow>
          (case levelData props of
             Some level \<Rightarrow> parsePipesGrid (layout level) (gameId props)
           | None \<Rightarrow> Inr emptyState))"

section \<open>Properties of the contract\<close>

text \<open>
  C10. The result argument of \<^verbatim>\<open>onGameEnd\<close> ranges over exactly three values, win, loss
  and draw, with three different literals: draw is a value of the callback's type
  besides win and loss.
\<close>

theorem onGameEnd_result_three_values:
  "(UNIV :: GameResult set) = {Win, Loss, Draw}
   \<and> card (UNIV :: GameResult set) = 3
   \<and> resultLiteral ` UNIV = {''win'', ''loss'', ''draw''}
   \<and> resultLiteral Draw \<notin> {resultLiteral Win, resultLiteral Loss}"
proof -
  have u: "(UNIV :: GameResult set) = {Win, Loss, Draw}"
  proof
    show "(UNIV :: GameResult set) \<subseteq> {Win, Loss, Draw}"
    proof
      fix r :: GameResult
      show "r \<in> {Win, Loss, Draw}" by (cases r) simp_all
    qed
  qed simp
  moreover have "card {Win, Loss, Draw} = 3" by simp
  moreover have "resultLiteral ` {Win, Loss, Draw} = {''win'', ''loss'', ''draw''}" by simp
  moreover have "resultLiteral Draw \<notin> {resultLiteral Win, resultLiteral Loss}" by simp
  ultimately show ?thesis by simp
qed

text \<open>
  C9. \<^verbatim>\<open>getPipesLevel\<close> always returns: for every level table, difficulty and level
  number, the result is the object with the level's layout when the key
  \<^verbatim>\<open>difficulty-levelNumber\<close> is mapped, and \<^verbatim>\<open>null\<close> when it is not. The result type has
  no other value and no error.
\<close>

theorem getPipesLevel_total:
  "(\<forall>level. LEVEL_MAP (difficultyToken d @ ''-'' @ numberToString n) = Some level \<longrightarrow>
       getPipesLevel LEVEL_MAP d n = Some \<lparr>layout = layout level\<rparr>)
   \<and> (LEVEL_MAP (difficultyToken d @ ''-'' @ numberToString n) = None \<longrightarrow>
       getPipesLevel LEVEL_MAP d n = None)
   \<and> (getPipesLevel LEVEL_MAP d n = None
       \<or> (\<exists>text. getPipesLevel LEVEL_MAP d n = Some \<lparr>layout = text\<rparr>))"
  by (cases "LEVEL_MAP (difficultyToken d @ ''-'' @ numberToString n)")
     (simp_all add: getPipesLevel_def levelKey_def)

lemma levelKey_easy_1: "levelKey Easy 1 = ''easy-1''"
  by (simp add: levelKey_def numberToString_def)

lemma levelKey_hard_12: "levelKey Hard 12 = ''hard-12''"
  by (simp add: levelKey_def numberToString_def)

theorem getPipesLevel_total_witness:
  "[''easy-1'' \<mapsto> \<lparr>layout = ''S P''\<rparr>] (difficultyToken Easy @ ''-'' @ numberToString 1) =
     Some \<lparr>layout = ''S P''\<rparr>
   \<and> getPipesLevel [''easy-1'' \<mapsto> \<lparr>layout = ''S P''\<rparr>] Easy 1 = Some \<lparr>layout = ''S P''\<rparr>
   \<and> [''easy-1'' \<mapsto> \<lparr>layout = ''S P''\<rparr>] (difficultyToken Hard @ ''-'' @ numberToString 12) = None
   \<and> getPipesLevel [''easy-1'' \<mapsto> \<lparr>layout = ''S P''\<rparr>] Hard 12 = None"
proof -
  let ?M = "[''easy-1'' \<mapsto> \<lparr>layout = ''S P''\<rparr>]"
  have k1: "?M (difficultyToken Easy @ ''-'' @ numberToString 1) = Some \<lparr>layout = ''S P''\<rparr>"
    using levelKey_easy_1 by (simp add: levelKey_def)
  have k2: "?M (difficultyToken Hard @ ''-'' @ numberToString 12) = None"
    using levelKey_hard_12 by (simp add: levelKey_def)
  from getPipesLevel_total[of ?M Easy 1] k1
  have "getPipesLevel ?M Easy 1 = Some \<lparr>layout = ''S P''\<rparr>" by simp
  moreover from getPipesLevel_total[of ?M Hard 12] k2
  have "getPipesLevel ?M Hard 12 = None" by simp
  ultimately show ?thesis using k1 k2 by simp
qed

text \<open>
  C4. The first render chooses the game data by precedence: restored data when
  \<^verbatim>\<open>initialGameData\<close> is present, used as it is; otherwise the parse of
  \<^verbatim>\<open>levelData.layout\<close> seeded by \<^verbatim>\<open>gameId\<close> when \<^verbatim>\<open>levelData\<close> is present; otherwise
  the empty placeholder. When \<^verbatim>\<open>initialGameData\<close> is present, the result is the same
  for every \<^verbatim>\<open>levelData\<close>, every \<^verbatim>\<open>gameId\<close> and every parser.
\<close>

theorem gameDataInitializer_precedence:
  "(\<forall>restored. initialGameData props = Some restored \<longrightarrow>
       gameDataInitializer parsePipesGrid emptyState props = Inr restored)
   \<and> (\<forall>level. initialGameData props = None \<and> levelData props = Some level \<longrightarrow>
       gameDataInitializer parsePipesGrid emptyState props =
         parsePipesGrid (layout level) (gameId props))
   \<and> (initialGameData props = None \<and> levelData props = None \<longrightarrow>
       gameDataInitializer parsePipesGrid emptyState props = Inr emptyState)
   \<and> (\<forall>restored anyLevel anyId otherParser.
         initialGameData props = Some restored \<longrightarrow>
         gameDataInitializer otherParser emptyState
             (props\<lparr>levelData := anyLevel, gameId := anyId\<rparr>) = Inr restored)"
  by (simp add: gameDataInitializer_def)

definition exampleProps :: "(PipeGrid \<times> Pos) PipesGameProps" where
  "exampleProps =
     \<lparr>interactive = Some True, onInteraction = True, onGameEnd = True, onStateChange = True,
      gameId = Some ''feed-item-7'', initialStatus = None, initialGameData = None,
      initialCompletionData = None, levelData = Some \<lparr>layout = ''S P''\<rparr>,
      difficulty = Some Easy, levelNumber = Some 1, pendingInteraction = None\<rparr>"

theorem gameDataInitializer_precedence_witness:
  "initialGameData (exampleProps\<lparr>initialGameData := Some (straightAbovePool 2 0, (0, 0))\<rparr>) =
     Some (straightAbovePool 2 0, (0, 0))
   \<and> gameDataInitializer (\<lambda>text seed. Inl ()) ([], (0, 0))
       (exampleProps\<lparr>initialGameData := Some (straightAbovePool 2 0, (0, 0))\<rparr>) =
     Inr (straightAbovePool 2 0, (0, 0))
   \<and> gameDataInitializer (\<lambda>text seed. Inr ([], (5, 5))) ([], (0, 0))
       (exampleProps\<lparr>initialGameData := Some (straightAbovePool 2 0, (0, 0)),
                      levelData := None, gameId := None\<rparr>) =
     (Inr (straightAbovePool 2 0, (0, 0)) :: unit + PipeGrid \<times> Pos)
   \<and> initialGameData exampleProps = None
   \<and> levelData exampleProps = Some \<lparr>layout = ''S P''\<rparr>
   \<and> gameDataInitializer (\<lambda>text seed. Inl ()) ([], (0, 0)) exampleProps = Inl ()
   \<and> initialGameData (exampleProps\<lparr>levelData := None\<rparr>) = None
   \<and> levelData (exampleProps\<lparr>levelData := None\<rparr>) = None
   \<and> gameDataInitializer (\<lambda>text seed. Inl ()) ([], (0, 0)) (exampleProps\<lparr>levelData := None\<rparr>) =
     Inr ([], (0, 0))"
proof -
  let ?parse = "\<lambda>(text :: string) (seed :: string option). (Inl () :: unit + PipeGrid \<times> Pos)"
  let ?restoredProps = "exampleProps\<lparr>initialGameData := Some (straightAbovePool 2 0, (0, 0))\<rparr>"
  have a: "initialGameData ?restoredProps = Some (straightAbovePool 2 0, (0, 0))"
    by simp
  have b: "initialGameData exampleProps = None \<and> levelData exampleProps = Some \<lparr>layout = ''S P''\<rparr>"
    by (simp add: exampleProps_def)
  have c: "initialGameData (exampleProps\<lparr>levelData := None\<rparr>) = None
      \<and> levelData (exampleProps\<lparr>levelData := None\<rparr>) = None"
    by (simp add: exampleProps_def)
  from gameDataInitializer_precedence[of ?restoredProps ?parse "([], (0, 0))"] a
  have "gameDataInitializer ?parse ([], (0, 0)) ?restoredProps = Inr (straightAbovePool 2 0, (0, 0))"
    by blast
  moreover
  have "gameDataInitializer (\<lambda>text seed. Inr ([], (5, 5))) ([], (0, 0))
       (?restoredProps\<lparr>levelData := None, gameId := None\<rparr>) =
     (Inr (straightAbovePool 2 0, (0, 0)) :: unit + PipeGrid \<times> Pos)"
    by (rule gameDataInitializer_precedence[of ?restoredProps ?parse "([], (0, 0))",
      THEN conjunct2, THEN conjunct2, THEN conjunct2, rule_format, OF a])
  moreover from gameDataInitializer_precedence[of exampleProps ?parse "([], (0, 0))"] b
  have "gameDataInitializer ?parse ([], (0, 0)) exampleProps = Inl ()"
    by simp
  moreover from gameDataInitializer_precedence[of "exampleProps\<lparr>levelData := None\<rparr>" ?parse "([], (0, 0))"] c
  have "gameDataInitializer ?parse ([], (0, 0)) (exampleProps\<lparr>levelData := None\<rparr>) = Inr ([], (0, 0))"
    by blast
  ultimately show ?thesis using a b c by simp
qed

section \<open>Simulation core: parsing a layout\<close>

text \<open>
  Modelled from the spec: the reading of a layout inside \<^verbatim>\<open>parsePipesGrid\<close>
  (\<^verbatim>\<open>core/parser.ts\<close>), which the plan announces and the sources do not contain; only its
  call in the initializer is there. The level format of the plan separates rows by
  newlines and tokens by spaces; the tokens are the nine piece names.
\<close>

datatype ParseError = MalformedLayout

fun splitOn :: "char \<Rightarrow> string \<Rightarrow> string list" where
  "splitOn sep [] = [[]]"
| "splitOn sep (c # cs) =
     (if c = sep then [] # splitOn sep cs
      else (case splitOn sep cs of
              [] \<Rightarrow> [[c]]
            | w # ws \<Rightarrow> (c # w) # ws))"

definition layoutTokens :: "string \<Rightarrow> string list list" where
  "layoutTokens text =
     filter (\<lambda>tokens. tokens \<noteq> [])
       (map (\<lambda>line. filter (\<lambda>w. w \<noteq> []) (splitOn CHR '' '' line))
            (splitOn (CHR 0x0A) text))"

definition tokenOf :: "string \<Rightarrow> PipeType option" where
  "tokenOf w =
     (if w = ''S'' then Some S else if w = ''L'' then Some L
      else if w = ''T'' then Some T else if w = ''X'' then Some X
      else if w = ''K1'' then Some K1 else if w = ''K2'' then Some K2
      else if w = ''K3'' then Some K3 else if w = ''K4'' then Some K4
      else if w = ''P'' then Some P else None)"

definition rectangular :: "'a list list \<Rightarrow> bool" where
  "rectangular rows = list_all (\<lambda>r. length r = length (hd rows)) rows"

definition layoutCells :: "(nat \<Rightarrow> nat \<Rightarrow> nat) \<Rightarrow> PipeType list list \<Rightarrow> PipeGrid" where
  "layoutCells rotationAt types =
     map (\<lambda>(r, ts).
            map (\<lambda>(c, t).
                   \<lparr>row = int r, col = int c, type = t,
                    currentRotation = rotationAt r c mod 4,
                    isWatered = False\<rparr>)
                (enumerate 0 ts))
         (enumerate 0 types)"

text \<open>
  Modelled from the spec: what a JavaScript function can read besides its arguments and
  what would make two calls differ, the draws of \<^verbatim>\<open>Math.random\<close>, call by call, and the
  clock. A call of the parser happens in some such surroundings.
\<close>

record Ambient =
  randomDraws :: "nat \<Rightarrow> nat"
  clock :: int

text \<open>
  Modelled from the spec: the body of \<^verbatim>\<open>parsePipesGrid\<close> is missing. Following the spec,
  the layout is a grid of piece tokens, rows separated by newlines and tokens by spaces;
  an unknown token or rows of different lengths give \<open>MalformedLayout\<close>; each cell starts
  dry at a rotation in 0..3 drawn from the seed, or from an identifier derived from the
  layout when no seed is given, and from nothing else: the surroundings of the call are
  at hand and are not read. Three parts the spec leaves open are parameters: the
  generator \<open>seededRotation\<close> (seed, row, column), the derivation \<open>derivedIdentifier\<close> of
  an identifier from the layout, and the choice \<open>sourceOf\<close> of the source cell. The
  second form of the argument in the plan, an explicit table of rotations, is left out.
\<close>

definition parsePipesGrid ::
  "(string \<Rightarrow> nat \<Rightarrow> nat \<Rightarrow> nat) \<Rightarrow> (string \<Rightarrow> string) \<Rightarrow> (PipeType list list \<Rightarrow> Pos) \<Rightarrow>
   Ambient \<Rightarrow> string \<Rightarrow> string option \<Rightarrow> ParseError + (PipeGrid \<times> Pos)" where
  "parsePipesGrid seededRotation derivedIdentifier sourceOf ambient text seed =
     (case those (map (\<lambda>tokens. those (map tokenOf tokens)) (layoutTokens text)) of
        None \<Rightarrow> Inl MalformedLayout
      | Some types \<Rightarrow>
          if \<not> rectangular types then Inl MalformedLayout
          else
            (let s = (case seed of Some given \<Rightarrow> given | None \<Rightarrow> derivedIdentifier text)
             in Inr (layoutCells (seededRotation s) types, sourceOf types)))"










section \<open>The mounted game instance as a state machine\<close>

text \<open>
  \<^verbatim>\<open>PipesGameData\<close> of \<^verbatim>\<open>core/types.ts\<close>: the state a mounted game holds and hands to the
  host.
\<close>

datatype GameState = playing | won

record PipesGameData =
  grid :: PipeGrid
  gameState :: GameState
  poolsFilled :: int
  poolCount :: int
  source :: Pos

text \<open>
  Modelled from the spec: the three phases of a mounted instance, which the spec names.
\<close>

datatype Phase = Uninitialized | Playing | Completed

text \<open>
  What the instance sends to the host, after the callback signatures of the plan: a
  state update through \<^verbatim>\<open>onStateChange\<close>, or the completion through \<^verbatim>\<open>onGameEnd\<close> with
  the result, the completion data and the final game data.
\<close>

datatype Emission =
  StateChange PipesGameData
| GameEnd GameResult CompletionData PipesGameData

text \<open>
  Modelled from the spec: what happens to the instance. The first render with its
  props; the component marking itself \<^verbatim>\<open>initialized\<close>, which the effect of the plan reads
  and no line of the sources sets, so that it may happen at any moment; the player
  turning the cell at a position, at a time on the host's clock; the next animation
  frame; and the host rendering the component again with another \<^verbatim>\<open>onStateChange\<close>
  callback, supplied or not.
\<close>

datatype Interaction =
  Mount "PipesGameData PipesGameProps"
| Initialized
| Rotate Pos int
| Frame
| NewOnStateChange bool

text \<open>
  The instance: its phase, its current props, its game data, the flag
  \<^verbatim>\<open>initialized\<close>, the callbacks handed to \<^verbatim>\<open>requestAnimationFrame\<close> that have not run
  yet, each with the game data of the render that scheduled it, and the record of what
  was sent to the host.
\<close>

record Instance =
  phase :: Phase
  mountProps :: "PipesGameData PipesGameProps option"
  gameData :: "PipesGameData option"
  initialized :: bool
  scheduled :: "PipesGameData list"
  emitted :: "Emission list"


text \<open>
  The effect of section 6.3 of the plan, one run of it: when \<^verbatim>\<open>onStateChange\<close> is supplied
  and \<^verbatim>\<open>initialized\<close> holds, it hands \<^verbatim>\<open>requestAnimationFrame\<close> a callback that will
  call \<^verbatim>\<open>onStateChange\<close> with the game data of this render. The effect tests nothing
  else: not the phase, and not whether the game is won. It returns no cleanup, so a
  scheduled callback is never cancelled.
\<close>

definition stateChangeEffect :: "Instance \<Rightarrow> Instance" where
  "stateChangeEffect inst =
     (case (mountProps inst, gameData inst) of
        (Some props, Some gd) \<Rightarrow>
          if onStateChange props \<and> initialized inst
          then inst\<lparr>scheduled := scheduled inst @ [gd]\<rparr>
          else inst
      | _ \<Rightarrow> inst)"

text \<open>
  The animation frame runs the scheduled callbacks in order: each calls
  \<^verbatim>\<open>onStateChange\<close> with the game data it holds.
\<close>

definition animationFrame :: "Instance \<Rightarrow> Instance" where
  "animationFrame inst =
     inst\<lparr>emitted := emitted inst @ map StateChange (scheduled inst), scheduled := []\<rparr>"

definition applyRotation ::
  "PieceDefinitions \<Rightarrow> PipesGameData \<Rightarrow> Pos \<Rightarrow> PipesGameData \<times> bool" where
  "applyRotation D gd p =
     (let flow = calculateFlow D (rotateCell (grid gd) p) (source gd) (poolCount gd)
      in (gd\<lparr>grid := newGrid flow,
             gameState := (if isGameWon flow then won else playing),
             poolsFilled := FlowResult.poolsFilled flow\<rparr>,
          isGameWon flow))"

text \<open>
  Modelled from the spec: the rest of the component \<^verbatim>\<open>Logic.tsx\<close>, which is missing; the
  sources hold its initializer, the effect above and the outline "handle rotation,
  calculate flow, call onStateChange after every state update, call onGameEnd when
  won". The spec gives the machine: the first render takes \<open>Uninitialized\<close> to \<open>Playing\<close>
  with the initializer's data; an accepted interaction turns one cell and recomputes the
  flow in full; when the flow reports a win the instance becomes \<open>Completed\<close> and calls
  \<^verbatim>\<open>onGameEnd\<close>, if supplied, at that transition; \<open>Completed\<close> ignores every interaction.
  A turn of a position outside the grid is not accepted, and a first render whose layout
  does not parse leaves the instance unmounted. The effect runs where its dependency
  list makes React run it: after the first render, after every change of the game
  data, and after a change of the \<^verbatim>\<open>onStateChange\<close> prop. The replay of
  \<^verbatim>\<open>pendingInteraction\<close> and the preview event \<^verbatim>\<open>onInteraction\<close> are left out.
\<close>

fun reduce ::
  "PieceDefinitions \<Rightarrow> (string \<Rightarrow> string option \<Rightarrow> ParseError + PipesGameData) \<Rightarrow>
   PipesGameData \<Rightarrow> Instance \<Rightarrow> Interaction \<Rightarrow> Instance" where
  "reduce D parse emptyState inst (Mount props) =
     (if phase inst = Uninitialized
      then (case gameDataInitializer parse emptyState props of
              Inl err \<Rightarrow> inst
            | Inr gd \<Rightarrow>
                stateChangeEffect
                  (inst\<lparr>phase := Playing, mountProps := Some props, gameData := Some gd\<rparr>))
      else inst)"
| "reduce D parse emptyState inst Initialized = inst\<lparr>initialized := True\<rparr>"
| "reduce D parse emptyState inst (Rotate p time) =
     (if phase inst = Playing
      then (case (mountProps inst, gameData inst) of
              (Some props, Some gd) \<Rightarrow>
                (if cellAt (grid gd) p = None then inst
                 else
                   (let (gd', isWon) = applyRotation D gd p;
                        ending =
                          (if onGameEnd props
                           then [GameEnd Win \<lparr>completionTime = time, result = Win\<rparr> gd']
                           else [])
                    in stateChangeEffect
                         (if isWon
                          then inst\<lparr>phase := Completed, gameData := Some gd',
                                    emitted := emitted inst @ ending\<rparr>
                          else inst\<lparr>gameData := Some gd'\<rparr>)))
            | _ \<Rightarrow> inst)
      else inst)"
| "reduce D parse emptyState inst Frame = animationFrame inst"
| "reduce D parse emptyState inst (NewOnStateChange supplied) =
     (case mountProps inst of
        None \<Rightarrow> inst
      | Some props \<Rightarrow>
          stateChangeEffect (inst\<lparr>mountProps := Some (props\<lparr>onStateChange := supplied\<rparr>)\<rparr>))"










section \<open>Properties of the mounted instance\<close>


















lemma reduce_Rotate_Completed:
  "phase inst = Completed \<Longrightarrow> reduce D parse e inst (Rotate p time) = inst"
  by simp











section \<open>The registry\<close>

text \<open>
  What \<^verbatim>\<open>registerAllGames\<close> passes to \<^verbatim>\<open>registerGame\<close> for a game: the component, the
  manifest and the level loader.
\<close>

record ('c, 'm, 'l) GameRegistration =
  component :: 'c
  manifest :: 'm
  levelLoader :: 'l

text \<open>
  Modelled from the spec: the descriptor that the registry keeps, which is the same
  three parts with the identifier, the two errors of the registry, and the registry as
  the table of its entries in registration order.
\<close>

record ('c, 'm, 'l) GameDescriptor = "('c, 'm, 'l) GameRegistration" +
  descriptorId :: string


type_synonym ('c, 'm, 'l) Registry = "(string \<times> ('c, 'm, 'l) GameDescriptor) list"

definition describe :: "string \<Rightarrow> ('c, 'm, 'l) GameRegistration \<Rightarrow> ('c, 'm, 'l) GameDescriptor" where
  "describe ident entry =
     \<lparr>component = component entry, manifest = manifest entry, levelLoader = levelLoader entry,
      descriptorId = ident\<rparr>"



definition listGames :: "('c, 'm, 'l) Registry \<Rightarrow> ('c, 'm, 'l) GameDescriptor list" where
  "listGames registry = map snd registry"








definition examplePipes :: "(string, string, string) GameRegistration" where
  "examplePipes =
     \<lparr>component = ''PipesGame.Component'', manifest = ''pipesManifest'',
      levelLoader = ''getPipesLevel''\<rparr>"

definition exampleRegistry :: "(string, string, string) Registry" where
  "exampleRegistry = [(''pipes'', describe ''pipes'' examplePipes)]"




section \<open>The feed algorithm\<close>

text \<open>
  Modelled from the spec: an item of the feed, with its own identifier, the game it
  serves, the level, and the saved state, absent for a new item.
\<close>

record 'gs FeedItem =
  itemId :: string
  itemGameId :: string
  levelDescriptor :: "Difficulty \<times> int"
  itemGameState :: "'gs option"

datatype FeedError = NoGamesRegistered

text \<open>
  Modelled from the spec: the feed algorithm is not in the sources. Following the spec,
  \<open>next\<close> fails with \<open>NoGamesRegistered\<close> on an empty registry; it avoids the game of
  the last item of the history whenever another game is registered; and among the
  remaining candidates it draws one at random. The draw \<open>pick\<close> (from the number of
  candidates to an index, reduced modulo that number), the level chosen by the
  difficulty progression \<open>levelFor\<close> and the identifier \<open>newItemId\<close> of the item are
  parameters: the spec leaves them open.
\<close>

definition nextFeedItem ::
  "(nat \<Rightarrow> nat) \<Rightarrow> ('gs FeedItem list \<Rightarrow> string \<Rightarrow> Difficulty \<times> int) \<Rightarrow>
   ('gs FeedItem list \<Rightarrow> string) \<Rightarrow> 'gs FeedItem list \<Rightarrow> ('c, 'm, 'l) Registry \<Rightarrow>
   FeedError + 'gs FeedItem" where
  "nextFeedItem pick levelFor newItemId history registrySnapshot =
     (let ids = map descriptorId (listGames registrySnapshot)
      in if ids = [] then Inl NoGamesRegistered
         else
           (let candidates =
                  (if history = [] then ids
                   else filter (\<lambda>i. i \<noteq> itemGameId (last history)) ids);
                pool = (if candidates = [] then ids else candidates);
                chosen = pool ! (pick (length pool) mod length pool)
            in Inr \<lparr>itemId = newItemId history, itemGameId = chosen,
                     levelDescriptor = levelFor history chosen, itemGameState = None\<rparr>))"

text \<open>
  C7 (scenario B). With a registry snapshot that holds at least two game identifiers
  and a history whose last two items are of game \<open>A\<close>, \<open>next\<close> returns an item of a
  registered game other than \<open>A\<close>. For every history, \<open>next\<close> fails with
  \<open>NoGamesRegistered\<close> if and only if the snapshot is empty.
\<close>

theorem nextFeedItem_avoids_repetition:
  "(2 \<le> card (set (map descriptorId (listGames registrySnapshot)))
      \<and> 2 \<le> length history
      \<and> itemGameId (last history) = A \<and> itemGameId (last (butlast history)) = A \<longrightarrow>
      (\<exists>item. nextFeedItem pick levelFor newItemId history registrySnapshot = Inr item
         \<and> itemGameId item \<noteq> A
         \<and> itemGameId item \<in> set (map descriptorId (listGames registrySnapshot))))
   \<and> (nextFeedItem pick levelFor newItemId history registrySnapshot = Inl NoGamesRegistered
        \<longleftrightarrow> registrySnapshot = [])"
proof -
  let ?ids = "map descriptorId (listGames registrySnapshot)"
  have fails: "nextFeedItem pick levelFor newItemId history registrySnapshot = Inl NoGamesRegistered
      \<longleftrightarrow> registrySnapshot = []"
    by (simp add: nextFeedItem_def Let_def listGames_def)
  have avoids: "\<exists>item. nextFeedItem pick levelFor newItemId history registrySnapshot = Inr item
      \<and> itemGameId item \<noteq> A \<and> itemGameId item \<in> set ?ids"
    if two: "2 \<le> card (set ?ids)" and hist: "2 \<le> length history"
      and lastA: "itemGameId (last history) = A" for A
  proof -
    let ?cands = "filter (\<lambda>i. i \<noteq> A) ?ids"
    from hist have h: "history \<noteq> []" by auto
    have "\<not> set ?ids \<subseteq> {A}"
    proof
      assume "set ?ids \<subseteq> {A}"
      then have "card (set ?ids) \<le> card {A}" by (intro card_mono) simp_all
      with two show False by simp
    qed
    then have ne: "?cands \<noteq> []" by (auto simp: filter_empty_conv)
    from two have ids: "?ids \<noteq> []" by auto
    from ne have "0 < length ?cands"
      by (rule length_greater_0_conv[THEN iffD2])
    then have "pick (length ?cands) mod length ?cands < length ?cands"
      by (rule mod_less_divisor)
    then have mem: "?cands ! (pick (length ?cands) mod length ?cands) \<in> set ?cands"
      by (rule nth_mem)
    have "nextFeedItem pick levelFor newItemId history registrySnapshot =
        Inr \<lparr>itemId = newItemId history,
             itemGameId = ?cands ! (pick (length ?cands) mod length ?cands),
             levelDescriptor = levelFor history (?cands ! (pick (length ?cands) mod length ?cands)),
             itemGameState = None\<rparr>"
      using h ne ids lastA by (simp add: nextFeedItem_def Let_def)
    with mem show ?thesis by auto
  qed
  show ?thesis using fails avoids by blast
qed

definition exampleSnapshot :: "(string, string, string) Registry" where
  "exampleSnapshot = exampleRegistry @ [(''sudoku'', describe ''sudoku'' examplePipes)]"

definition exampleHistory :: "unit FeedItem list" where
  "exampleHistory =
     [\<lparr>itemId = ''item-1'', itemGameId = ''pipes'', levelDescriptor = (Easy, 1),
       itemGameState = None\<rparr>,
      \<lparr>itemId = ''item-2'', itemGameId = ''pipes'', levelDescriptor = (Easy, 2),
       itemGameState = None\<rparr>]"


theorem nextFeedItem_avoids_repetition_witness:
  "2 \<le> card (set (map descriptorId (listGames exampleSnapshot)))
   \<and> 2 \<le> length exampleHistory
   \<and> itemGameId (last exampleHistory) = ''pipes''
   \<and> itemGameId (last (butlast exampleHistory)) = ''pipes''
   \<and> (\<exists>item. nextFeedItem (\<lambda>n. 0) (\<lambda>h g. (Easy, 1)) (\<lambda>h. ''item-3'')
                exampleHistory exampleSnapshot = Inr item
          \<and> itemGameId item \<noteq> ''pipes''
          \<and> itemGameId item \<in> set (map descriptorId (listGames exampleSnapshot)))
   \<and> nextFeedItem (\<lambda>n. 0) (\<lambda>h g. (Easy, 1)) (\<lambda>h. ''item-3'') exampleHistory
         ([] :: (string, string, string) Registry) = Inl NoGamesRegistered"
proof -
  have ids: "map descriptorId (listGames exampleSnapshot) = [''pipes'', ''sudoku'']"
    by (simp add: exampleSnapshot_def exampleRegistry_def listGames_def describe_def)
  have h: "2 \<le> card (set (map descriptorId (listGames exampleSnapshot)))
      \<and> 2 \<le> length exampleHistory
      \<and> itemGameId (last exampleHistory) = ''pipes''
      \<and> itemGameId (last (butlast exampleHistory)) = ''pipes''"
    unfolding ids by (simp add: exampleHistory_def)
  note served = nextFeedItem_avoids_repetition[where registrySnapshot = exampleSnapshot
      and history = exampleHistory and A = "''pipes''" and pick = "\<lambda>n. 0"
      and levelFor = "\<lambda>h g. (Easy, 1)" and newItemId = "\<lambda>h. ''item-3''",
      THEN conjunct1, THEN mp, OF h]
  note unserved = nextFeedItem_avoids_repetition[where
      registrySnapshot = "[] :: (string, string, string) Registry"
      and history = exampleHistory and pick = "\<lambda>n. 0"
      and levelFor = "\<lambda>h g. (Easy, 1)" and newItemId = "\<lambda>h. ''item-3''",
      THEN conjunct2, THEN iffD2, OF refl]
  from h served unserved show ?thesis by (intro conjI) (elim conjE, assumption)+
qed

section \<open>The scanner\<close>

text \<open>
  Modelled from the spec: a plugin folder as the scanner finds it, with its name, the
  manifest file when there is one, read as a JSON object whose fields may be absent, the
  exported entry point when there is one, and the level loader. A valid manifest has an
  identifier, a title and its difficulty levels.
\<close>

record RawManifest =
  rawId :: "string option"
  rawTitle :: "string option"
  rawDifficultyLevels :: "string list option"

record Manifest =
  manifestId :: string
  title :: string
  difficultyLevels :: "Difficulty list"

record ('c, 'l) PluginFolder =
  folderName :: string
  manifestFile :: "RawManifest option"
  entryPoint :: "'c option"
  folderLevelLoader :: 'l

datatype ScanError = ManifestMissing | ManifestInvalid | ComponentMissing

definition difficultyOf :: "string \<Rightarrow> Difficulty option" where
  "difficultyOf w =
     (if w = ''easy'' then Some Easy else if w = ''medium'' then Some Medium
      else if w = ''hard'' then Some Hard else if w = ''extreme'' then Some Extreme
      else None)"

definition validateManifest :: "RawManifest \<Rightarrow> Manifest option" where
  "validateManifest raw =
     (case (rawId raw, rawTitle raw, rawDifficultyLevels raw) of
        (Some ident, Some name, Some tokens) \<Rightarrow>
          (case those (map difficultyOf tokens) of
             Some levels \<Rightarrow>
               Some \<lparr>manifestId = ident, title = name, difficultyLevels = levels\<rparr>
           | None \<Rightarrow> None)
      | _ \<Rightarrow> None)"

text \<open>
  Modelled from the spec: the scanner is not in the sources. Following the spec, each
  folder is examined on its own: no manifest gives \<open>ManifestMissing\<close>, a manifest
  with a required field absent or malformed gives \<open>ManifestInvalid\<close>, no exported
  entry point gives \<open>ComponentMissing\<close>; otherwise the folder yields the tuple of
  identifier, manifest, level loader and component. The scan reports, folder by folder
  and in order, the tuple or the failure; the catalog is the sequence of the tuples.
\<close>

definition scanFolder ::
  "('c, 'l) PluginFolder \<Rightarrow> ScanError + (string \<times> Manifest \<times> 'l \<times> 'c)" where
  "scanFolder folder =
     (case manifestFile folder of
        None \<Rightarrow> Inl ManifestMissing
      | Some raw \<Rightarrow>
          (case validateManifest raw of
             None \<Rightarrow> Inl ManifestInvalid
           | Some m \<Rightarrow>
               (case entryPoint folder of
                  None \<Rightarrow> Inl ComponentMissing
                | Some c \<Rightarrow> Inr (manifestId m, m, folderLevelLoader folder, c))))"

fun scanAll ::
  "('c, 'l) PluginFolder list \<Rightarrow>
   (string \<times> Manifest \<times> 'l \<times> 'c) list \<times> (string \<times> ScanError) list" where
  "scanAll [] = ([], [])"
| "scanAll (folder # folders) =
     (let (catalog, failures) = scanAll folders
      in case scanFolder folder of
           Inl err \<Rightarrow> (catalog, (folderName folder, err) # failures)
         | Inr found \<Rightarrow> (found # catalog, failures))"

definition Scanner :: "('c, 'l) PluginFolder list \<Rightarrow> (string \<times> Manifest \<times> 'l \<times> 'c) list" where
  "Scanner folders = fst (scanAll folders)"

definition scanFailures :: "('c, 'l) PluginFolder list \<Rightarrow> (string \<times> ScanError) list" where
  "scanFailures folders = snd (scanAll folders)"

lemma Scanner_Nil: "Scanner [] = []"
  by (simp add: Scanner_def)

lemma Scanner_Cons:
  "Scanner (folder # folders) =
     (case scanFolder folder of Inl err \<Rightarrow> Scanner folders | Inr found \<Rightarrow> found # Scanner folders)"
  by (simp add: Scanner_def split: prod.splits sum.splits)

lemma scanFailures_Nil: "scanFailures [] = []"
  by (simp add: scanFailures_def)

lemma scanFailures_Cons:
  "scanFailures (folder # folders) =
     (case scanFolder folder of
        Inl err \<Rightarrow> (folderName folder, err) # scanFailures folders
      | Inr found \<Rightarrow> scanFailures folders)"
  by (simp add: scanFailures_def split: prod.splits sum.splits)

lemma Scanner_append: "Scanner (xs @ ys) = Scanner xs @ Scanner ys"
  by (induction xs) (simp_all add: Scanner_Nil Scanner_Cons split: sum.splits)

lemma scanFailures_append: "scanFailures (xs @ ys) = scanFailures xs @ scanFailures ys"
  by (induction xs) (simp_all add: scanFailures_Nil scanFailures_Cons split: sum.splits)

lemma Scanner_complete:
  "folder \<in> set folders \<Longrightarrow> scanFolder folder = Inr found \<Longrightarrow> found \<in> set (Scanner folders)"
  by (induction folders) (auto simp: Scanner_Cons split: sum.splits)

lemma Scanner_sound:
  "found \<in> set (Scanner folders) \<Longrightarrow> \<exists>folder \<in> set folders. scanFolder folder = Inr found"
  by (induction folders) (auto simp: Scanner_Nil Scanner_Cons split: sum.splits)

lemma scan_accounts_for_all:
  "length (Scanner folders) + length (scanFailures folders) = length folders"
  by (induction folders)
     (simp_all add: Scanner_Nil Scanner_Cons scanFailures_Nil scanFailures_Cons split: sum.splits)

text \<open>
  C8 (scenario D). A folder without a manifest is reported as \<open>ManifestMissing\<close>. A
  folder that fails leaves the scan of the folders before and after it as it is: the
  catalog is the catalog of the other folders, in order, and the failure is reported
  under the folder's name. The catalog holds the tuple of every folder that scans well
  and nothing else, and every folder is either in the catalog or among the failures.
\<close>

theorem Scanner_isolates_failures:
  "(manifestFile broken = None \<longrightarrow> scanFolder broken = Inl ManifestMissing)
   \<and> (\<forall>err. scanFolder broken = Inl err \<longrightarrow>
          Scanner (before @ [broken] @ after) = Scanner before @ Scanner after
          \<and> Scanner (before @ [broken] @ after) = Scanner (before @ after)
          \<and> scanFailures (before @ [broken] @ after) =
              scanFailures before @ [(folderName broken, err)] @ scanFailures after)
   \<and> (\<forall>folder found. folder \<in> set folders \<and> scanFolder folder = Inr found \<longrightarrow>
          found \<in> set (Scanner folders))
   \<and> (\<forall>found. found \<in> set (Scanner folders) \<longrightarrow>
          (\<exists>folder \<in> set folders. scanFolder folder = Inr found))
   \<and> length (Scanner folders) + length (scanFailures folders) = length folders"
proof -
  have missing: "manifestFile broken = None \<longrightarrow> scanFolder broken = Inl ManifestMissing"
    by (simp add: scanFolder_def)
  have isolated: "Scanner (before @ [broken] @ after) = Scanner before @ Scanner after
      \<and> Scanner (before @ [broken] @ after) = Scanner (before @ after)
      \<and> scanFailures (before @ [broken] @ after) =
          scanFailures before @ [(folderName broken, err)] @ scanFailures after"
    if "scanFolder broken = Inl err" for err
    using that
    by (simp add: Scanner_append Scanner_Cons Scanner_Nil
          scanFailures_append scanFailures_Cons scanFailures_Nil)
  have complete: "\<forall>folder found. folder \<in> set folders \<and> scanFolder folder = Inr found \<longrightarrow>
      found \<in> set (Scanner folders)"
    using Scanner_complete by blast
  have sound: "\<forall>found. found \<in> set (Scanner folders) \<longrightarrow>
      (\<exists>folder \<in> set folders. scanFolder folder = Inr found)"
    using Scanner_sound by blast
  show ?thesis
    using missing isolated complete sound scan_accounts_for_all[of folders] by blast
qed

definition pluginFolder :: "string \<Rightarrow> (string, string) PluginFolder" where
  "pluginFolder name =
     \<lparr>folderName = name,
      manifestFile =
        Some \<lparr>rawId = Some name, rawTitle = Some name,
              rawDifficultyLevels = Some [''easy'', ''hard'']\<rparr>,
      entryPoint = Some name, folderLevelLoader = name\<rparr>"

definition brokenFolder :: "(string, string) PluginFolder" where
  "brokenFolder = (pluginFolder ''broken'')\<lparr>manifestFile := None\<rparr>"

definition pluginTuple :: "string \<Rightarrow> string \<times> Manifest \<times> string \<times> string" where
  "pluginTuple name =
     (name, \<lparr>manifestId = name, title = name, difficultyLevels = [Easy, Hard]\<rparr>, name, name)"

lemma scanFolder_pluginFolder: "scanFolder (pluginFolder name) = Inr (pluginTuple name)"
  by (simp add: scanFolder_def pluginFolder_def pluginTuple_def validateManifest_def difficultyOf_def)

theorem Scanner_isolates_failures_witness:
  "manifestFile brokenFolder = None
   \<and> scanFolder brokenFolder = Inl ManifestMissing
   \<and> Scanner ([pluginFolder ''pipes''] @ [brokenFolder] @ [pluginFolder ''sudoku'']) =
       Scanner ([pluginFolder ''pipes''] @ [pluginFolder ''sudoku''])
   \<and> scanFailures ([pluginFolder ''pipes''] @ [brokenFolder] @ [pluginFolder ''sudoku'']) =
       scanFailures [pluginFolder ''pipes''] @ [(folderName brokenFolder, ManifestMissing)]
         @ scanFailures [pluginFolder ''sudoku'']
   \<and> pluginFolder ''sudoku'' \<in> set [pluginFolder ''pipes'', brokenFolder, pluginFolder ''sudoku'']
   \<and> scanFolder (pluginFolder ''sudoku'') = Inr (pluginTuple ''sudoku'')
   \<and> pluginTuple ''sudoku'' \<in> set (Scanner [pluginFolder ''pipes'', brokenFolder, pluginFolder ''sudoku''])
   \<and> (\<exists>folder \<in> set [pluginFolder ''pipes'', brokenFolder, pluginFolder ''sudoku''].
         scanFolder folder = Inr (pluginTuple ''sudoku''))"
proof -
  note scan = Scanner_isolates_failures[where broken = brokenFolder
      and before = "[pluginFolder ''pipes'']" and after = "[pluginFolder ''sudoku'']"
      and folders = "[pluginFolder ''pipes'', brokenFolder, pluginFolder ''sudoku'']"]
  have none: "manifestFile brokenFolder = None"
    by (simp add: brokenFolder_def)
  from scan[THEN conjunct1, THEN mp, OF none]
  have failed: "scanFolder brokenFolder = Inl ManifestMissing" .
  note isolated = scan[THEN conjunct2, THEN conjunct1, THEN spec, THEN mp, OF failed]
  have there: "pluginFolder ''sudoku'' \<in> set [pluginFolder ''pipes'', brokenFolder, pluginFolder ''sudoku'']"
    by simp
  have good: "scanFolder (pluginFolder ''sudoku'') = Inr (pluginTuple ''sudoku'')"
    by (rule scanFolder_pluginFolder)
  note listed = scan[THEN conjunct2, THEN conjunct2, THEN conjunct1, THEN spec, THEN spec,
      THEN mp, OF conjI[OF there good]]
  note origin = scan[THEN conjunct2, THEN conjunct2, THEN conjunct2, THEN conjunct1, THEN spec,
      THEN mp, OF listed]
  from none failed isolated[THEN conjunct2, THEN conjunct1]
    isolated[THEN conjunct2, THEN conjunct2] there good listed origin
  show ?thesis by (intro conjI)
qed

end
